theory Spec2Isabelle
  imports Main "HOL-Library.AList"
begin

section \<open>Python strings and POSIX path functions used by the sources\<close>

text \<open>
  Python \<open>str\<close> values are modelled as \<^typ>\<open>string\<close>.  The path functions follow
  \<open>posixpath\<close>, the implementation of \<open>os.path\<close> on the platforms whose separator is
  \<open>/\<close>.
\<close>

abbreviation nl :: string where
  "nl \<equiv> [CHR 0x0A]"

abbreviation sq :: string where
  "sq \<equiv> [CHR 0x27]"

definition startswith :: "string \<Rightarrow> string \<Rightarrow> bool" where
  "startswith s p = (take (length p) s = p)"

definition endswith :: "string \<Rightarrow> string \<Rightarrow> bool" where
  "endswith s x = (length x \<le> length s \<and> drop (length s - length x) s = x)"

text \<open>\<open>sep.join(xs)\<close>.\<close>

fun str_join :: "string \<Rightarrow> string list \<Rightarrow> string" where
  "str_join sep [] = []"
| "str_join sep [x] = x"
| "str_join sep (x # y # ys) = x @ sep @ str_join sep (y # ys)"

text \<open>\<open>s.split('.')[-1]\<close>: the part of \<open>s\<close> after its last dot, all of \<open>s\<close> without one.\<close>

definition split_dot_last :: "string \<Rightarrow> string" where
  "split_dot_last s = rev (takeWhile (\<lambda>c. c \<noteq> CHR ''.'') (rev s))"

text \<open>
  \<open>s.strip()\<close>, for the white space of the ASCII range (\<open>str.isspace\<close> holds of the
  characters 9 to 13, 28 to 31 and 32).
\<close>

definition isspace :: "char \<Rightarrow> bool" where
  "isspace c = (let n = of_char c :: nat in (9 \<le> n \<and> n \<le> 13) \<or> (28 \<le> n \<and> n \<le> 32))"

definition strip :: "string \<Rightarrow> string" where
  "strip s = rev (dropWhile isspace (rev (dropWhile isspace s)))"

text \<open>One step of the loop of \<open>posixpath.join\<close>, and the loop over the remaining parts.\<close>

definition join2 :: "string \<Rightarrow> string \<Rightarrow> string" where
  "join2 path b =
     (if startswith b ''/'' then b
      else if path = [] \<or> endswith path ''/'' then path @ b
      else path @ ''/'' @ b)"

definition os_path_join :: "string \<Rightarrow> string list \<Rightarrow> string" where
  "os_path_join a p = foldl join2 a p"

text \<open>\<open>posixpath.basename\<close>: everything after the last separator.\<close>

definition basename :: "string \<Rightarrow> string" where
  "basename p = rev (takeWhile (\<lambda>c. c \<noteq> CHR ''/'') (rev p))"

text \<open>
  \<open>posixpath.split\<close>: the head is everything up to and including the last separator, with
  its trailing separators removed unless it consists of separators only.
\<close>

definition os_path_split :: "string \<Rightarrow> string \<times> string" where
  "os_path_split p =
     (let head = rev (dropWhile (\<lambda>c. c \<noteq> CHR ''/'') (rev p));
          tail = basename p
      in (if head \<noteq> [] \<and> (\<exists>c \<in> set head. c \<noteq> CHR ''/'')
          then rev (dropWhile (\<lambda>c. c = CHR ''/'') (rev head))
          else head, tail))"

definition dirname :: "string \<Rightarrow> string" where
  "dirname p = fst (os_path_split p)"

definition isabs :: "string \<Rightarrow> bool" where
  "isabs p = startswith p ''/''"

text \<open>
  The first component of \<open>posixpath.splitext\<close>: the extension starts at the last dot of the
  last path component, unless only dots precede that dot there.
\<close>

definition splitext_root :: "string \<Rightarrow> string" where
  "splitext_root p =
     (let b = basename p;
          before_dot = rev (drop 1 (dropWhile (\<lambda>c. c \<noteq> CHR ''.'') (rev b)))
      in if CHR ''.'' \<in> set b \<and> (\<exists>c \<in> set before_dot. c \<noteq> CHR ''.'')
         then take (length p - length b) p @ before_dot
         else p)"

section \<open>The project data model (project.py)\<close>

text \<open>
  \<open>QrcFile\<close> and its subclass \<open>QrcDirectory\<close>: a name, the \<open>included\<close> flag, and for a
  directory the ordered list of its contents.
\<close>

datatype content =
    QrcFile string bool
  | QrcDirectory string bool "content list"

fun content_name :: "content \<Rightarrow> string" where
  "content_name (QrcFile n i) = n"
| "content_name (QrcDirectory n i cs) = n"

fun included :: "content \<Rightarrow> bool" where
  "included (QrcFile n i) = i"
| "included (QrcDirectory n i cs) = i"

record QrcPackage =
  pkg_name :: string
  contents :: "content list"
  exclusions :: "string list"

text \<open>\<open>QrcPackage.__init__\<close>.\<close>

definition QrcPackage_init :: QrcPackage where
  "QrcPackage_init =
     \<lparr>pkg_name = '''', contents = [],
      exclusions = [''*.pyc'', ''*.pyo'', ''__pycache__'', ''*-info'']\<rparr>"

record StdlibExtensionModule =
  sem_name :: string
  sem_defines :: string
  sem_includepath :: string
  sem_libs :: string

record ExtensionModule =
  em_name :: string
  em_path :: string

record Project =
  modified :: bool
  name :: string
  application_name :: string
  application_is_pyqt5 :: bool
  application_package :: QrcPackage
  application_script :: string
  application_entry_point :: string
  build_dir :: string
  extension_modules :: "ExtensionModule list"
  pyqt_modules :: "string list"
  python_host_interpreter :: string
  python_source_dir :: string
  python_target_include_dir :: string
  python_target_library :: string
  python_target_stdlib_dir :: string
  qmake :: string
  packages :: "QrcPackage list"
  stdlib_package :: QrcPackage
  stdlib_extension_modules :: "StdlibExtensionModule list"
  sys_path :: string

text \<open>
  \<open>Project.__init__\<close>.  The argument is the project's name after \<open>os.path.abspath\<close>
  (the empty string for a project without a name).
\<close>

definition Project_init :: "string \<Rightarrow> Project" where
  "Project_init abs_name =
     \<lparr>modified = False, name = abs_name,
      application_name = '''', application_is_pyqt5 = True,
      application_package = QrcPackage_init, application_script = '''',
      application_entry_point = '''', build_dir = ''build'',
      extension_modules = [], pyqt_modules = [],
      python_host_interpreter = '''', python_source_dir = '''',
      python_target_include_dir = '''', python_target_library = '''',
      python_target_stdlib_dir = '''', qmake = '''',
      packages = [QrcPackage_init], stdlib_package = QrcPackage_init,
      stdlib_extension_modules = [], sys_path = ''''\<rparr>"

section \<open>Exceptions, the environment, and the effects of a build\<close>

text \<open>
  The exceptions that leave the modelled code.  \<open>UserException\<close> carries the summary and
  the detail; the others carry the interpreter's message.
\<close>

datatype exn =
    UserException string string
  | AttributeError string
  | TypeError string
  | OSError string

text \<open>
  The outcome of \<open>subprocess.check_output\<close>'s child: it ran and exited with a status and
  the captured output (standard error is redirected into it), or it could not be started.
\<close>

datatype proc_result =
    Exited int string
  | NotStarted string

text \<open>
  Everything outside the program is a parameter: each field gives the outcome of one
  operating-system or Qt call as a function of the call's arguments.  An error field
  yields \<open>None\<close> when the call succeeds and the text of the exception otherwise.
\<close>

text \<open>
  A directory as \<open>os.listdir\<close>, \<open>os.path.isfile\<close> and \<open>os.path.isdir\<close> show it: regular
  files, directories with their own listing, directories that cannot be listed (with the
  text of the \<open>OSError\<close>), and entries that are neither file nor directory.
\<close>

datatype fsnode =
    FsFile string
  | FsDir string "fsnode list"
  | FsNoList string string
  | FsOther string

record world =
  makedirs_error :: "string \<Rightarrow> string option"
  open_error :: "string \<Rightarrow> string option"
  check_output :: "string list \<Rightarrow> proc_result"
  copyfile_error :: "string \<Rightarrow> string \<Rightarrow> string option"
  remove_error :: "string \<Rightarrow> string option"
  qfile_copy :: "string \<Rightarrow> string \<Rightarrow> bool"
  platforms_pro :: "string + string"
  listdir :: "string \<Rightarrow> string + fsnode list"
  lib_filename :: "string \<Rightarrow> string"
  gettempdir :: string
  expandvars :: "string \<Rightarrow> string"
  version_hex :: string

text \<open>
  What a run does to the outside, in order.  \<open>Write f s\<close> is \<open>f.write(s)\<close> on the file
  opened at path \<open>f\<close>.
\<close>

datatype event =
    Makedirs string
  | Open string
  | Write string string
  | Close string
  | Run "string list"
  | CopyFile string string
  | QFileRemove string
  | QFileCopy string string
  | Remove string
  | Print string

text \<open>
  A computation yields the events it performed and either the exception that ended it or
  its value.
\<close>

type_synonym 'a res = "event list \<times> (exn + 'a)"

definition ret :: "'a \<Rightarrow> 'a res" where
  "ret x = ([], Inr x)"

definition raise :: "exn \<Rightarrow> 'a res" where
  "raise e = ([], Inl e)"

definition emit :: "event \<Rightarrow> unit res" where
  "emit ev = ([ev], Inr ())"

definition res_bind :: "'a res \<Rightarrow> ('a \<Rightarrow> 'b res) \<Rightarrow> 'b res" where
  "res_bind m k =
     (case m of
        (l, Inl e) \<Rightarrow> (l, Inl e)
      | (l, Inr x) \<Rightarrow> (case k x of (l', r) \<Rightarrow> (l @ l', r)))"

definition res_then :: "unit res \<Rightarrow> 'b res \<Rightarrow> 'b res" where
  "res_then m k = res_bind m (\<lambda>_. k)"

text \<open>Statements in sequence: the first exception ends the sequence.\<close>

fun res_seq :: "unit res list \<Rightarrow> unit res" where
  "res_seq [] = ret ()"
| "res_seq (m # ms) = res_then m (res_seq ms)"

definition writes :: "string \<Rightarrow> string list \<Rightarrow> unit res" where
  "writes f ss = (map (Write f) ss, Inr ())"

section \<open>The builder (builder.py)\<close>

record Builder =
  project :: Project
  verbose :: bool

subsection \<open>The metadata tables\<close>

record QtMetaData =
  qt :: "string list option"
  config :: "string list option"

definition QtMetaData_init :: QtMetaData where
  "QtMetaData_init = \<lparr>qt = None, config = None\<rparr>"

definition md_qt :: "string list \<Rightarrow> QtMetaData" where
  "md_qt ts = \<lparr>qt = Some ts, config = None\<rparr>"

definition md_config :: "string list \<Rightarrow> QtMetaData" where
  "md_config ts = \<lparr>qt = None, config = Some ts\<rparr>"

definition pyqt5_module_map :: "(string \<times> QtMetaData) list" where
  "pyqt5_module_map =
     [(''QAxContainer'', md_qt [''axcontainer'']),
      (''QtBluetooth'', md_qt [''bluetooth'']),
      (''QtCore'', md_qt [''-gui'']),
      (''QtDBus'', md_qt [''dbus'', ''-gui'']),
      (''QtDesigner'', md_qt [''designer'']),
      (''QtHelp'', md_qt [''help'']),
      (''QtMacExtras'', md_qt [''macextras'']),
      (''QtMultimedia'', md_qt [''multimedia'']),
      (''QtMultimediaWidgets'', md_qt [''multimediawidgets'', ''multimedia'']),
      (''QtNetwork'', md_qt [''network'', ''-gui'']),
      (''QtOpenGL'', md_qt [''opengl'']),
      (''QtPositioning'', md_qt [''positioning'']),
      (''QtPrintSupport'', md_qt [''printsupport'']),
      (''QtQml'', md_qt [''qml'']),
      (''QtQuick'', md_qt [''quick'']),
      (''QtSensors'', md_qt [''sensors'']),
      (''QtSerialPort'', md_qt [''serialport'']),
      (''QtSql'', md_qt [''sql'', ''widgets'']),
      (''QtSvg'', md_qt [''svg'']),
      (''QtTest'', md_qt [''testlib'', ''widgets'']),
      (''QtWebKit'', md_qt [''webkit'', ''network'']),
      (''QtWebKitWidgets'', md_qt [''webkitwidgets'']),
      (''QtWidgets'', md_qt [''widgets'']),
      (''QtWinExtras'', md_qt [''winextras'', ''widgets'']),
      (''QtX11Extras'', md_qt [''x11extras'']),
      (''QtXmlPatterns'', md_qt [''xmlpatterns'', ''-gui'', ''network'']),
      (''QtChart'', md_config [''qtcommercialchart'']),
      (''QtDataVisualization'', md_qt [''datavisualization'']),
      (''Qsci'', md_config [''qscintilla2''])]"

definition pyqt4_module_map :: "(string \<times> QtMetaData) list" where
  "pyqt4_module_map =
     [(''QAxContainer'', md_config [''qaxcontainer'']),
      (''QtCore'', md_qt [''-gui'']),
      (''QtDBus'', md_qt [''dbus'', ''-gui'']),
      (''QtDeclarative'', md_qt [''declarative'', ''network'']),
      (''QtDesigner'', md_config [''designer'']),
      (''QtHelp'', md_config [''help'']),
      (''QtMultimedia'', md_qt [''multimedia'']),
      (''QtNetwork'', md_qt [''network'', ''-gui'']),
      (''QtOpenGL'', md_qt [''opengl'']),
      (''QtScript'', md_qt [''script'', ''-gui'']),
      (''QtScriptTools'', md_qt [''scripttools'', ''script'']),
      (''QtSql'', md_qt [''sql'']),
      (''QtSvg'', md_qt [''svg'']),
      (''QtTest'', md_qt [''testlib'']),
      (''QtWebKit'', md_qt [''webkit'', ''network'']),
      (''QtXml'', md_qt [''xml'', ''-gui'']),
      (''QtXmlPatterns'', md_qt [''xmlpatterns'', ''-gui'', ''network'']),
      (''phonon'', md_qt [''phonon'']),
      (''QtChart'', md_config [''qtcommercialchart'']),
      (''Qsci'', md_config [''qscintilla2''])]"

text \<open>\<open>module_map.get(pyqt_m, self._QtMetaData())\<close>.\<close>

definition get_metadata :: "(string \<times> QtMetaData) list \<Rightarrow> string \<Rightarrow> QtMetaData" where
  "get_metadata module_map pyqt_m =
     (case map_of module_map pyqt_m of None \<Rightarrow> QtMetaData_init | Some metadata \<Rightarrow> metadata)"

subsection \<open>Small operations on the outside\<close>

definition log :: "Builder \<Rightarrow> string \<Rightarrow> unit res" where
  "log b message = (if verbose b then emit (Print message) else ret ())"

definition Builder_create_directory :: "world \<Rightarrow> string \<Rightarrow> unit res" where
  "Builder_create_directory w dir_name =
     ([Makedirs dir_name],
      case makedirs_error w dir_name of
        None \<Rightarrow> Inr ()
      | Some e \<Rightarrow>
          Inl (UserException (''Unable to create the '' @ sq @ dir_name @ sq @ '' directory.'') e))"

text \<open>The file object returned by \<open>_create_file\<close> is represented by its path name.\<close>

definition Builder_create_file :: "world \<Rightarrow> string \<Rightarrow> string \<Rightarrow> string res" where
  "Builder_create_file w bdir filename =
     (let pathname = os_path_join bdir [filename]
      in ([Open pathname],
          case open_error w pathname of
            None \<Rightarrow> Inr pathname
          | Some e \<Rightarrow> Inl (UserException (''Unable to create file '' @ pathname @ ''.'') e)))"

text \<open>
  \<open>_copy_lib_file\<close>.  \<open>QDir.fromNativeSeparators\<close> leaves a path with \<open>/\<close> as it is.  The
  exception is built from the summary alone; its detail is taken to be empty.
\<close>

definition Builder_copy_lib_file :: "world \<Rightarrow> string \<Rightarrow> string option \<Rightarrow> string res" where
  "Builder_copy_lib_file w filename dir_name =
     (let dir_name = (case dir_name of None \<Rightarrow> gettempdir w | Some d \<Rightarrow> d);
          d_filename = os_path_join dir_name [filename];
          s_filename = lib_filename w filename
      in ([QFileRemove d_filename, QFileCopy s_filename d_filename],
          if \<not> qfile_copy w s_filename d_filename
          then Inl (UserException (''Unable to copy file '' @ filename @ ''.'') '''')
          else Inr d_filename))"

text \<open>\<open>shutil.copyfile\<close>, which raises \<open>OSError\<close> when it cannot read or write.\<close>

definition copyfile :: "world \<Rightarrow> string \<Rightarrow> string \<Rightarrow> unit res" where
  "copyfile w src dst =
     ([CopyFile src dst],
      case copyfile_error w src dst of None \<Rightarrow> Inr () | Some e \<Rightarrow> Inl (OSError e))"

text \<open>\<open>os.remove\<close>.\<close>

definition os_remove :: "world \<Rightarrow> string \<Rightarrow> unit res" where
  "os_remove w path =
     ([Remove path], case remove_error w path of None \<Rightarrow> Inr () | Some e \<Rightarrow> Inl (OSError e))"

subsection \<open>Freezing\<close>

text \<open>
  \<open>_freeze\<close>.  \<open>subprocess.check_output\<close> returns the captured output when the child exits
  with status 0 and raises \<open>CalledProcessError\<close> when it exits with any other status; only
  that exception is caught.  A child that cannot be started raises \<open>OSError\<close>.
\<close>

definition Builder_freeze ::
  "world \<Rightarrow> Builder \<Rightarrow> string \<Rightarrow> string \<Rightarrow> string \<Rightarrow> bool \<Rightarrow> bool \<Rightarrow> unit res" where
  "Builder_freeze w b output py_filename freeze main as_data =
     (let args = [python_host_interpreter (project b), freeze]
                 @ (if main then [''--main''] else [])
                 @ [if as_data then ''--as-data'' else ''--as-c'', output, py_filename]
      in res_seq
           [log b (''Running '' @ sq @ str_join '' '' args @ sq),
            emit (Run args),
            case check_output w args of
              Exited returncode out \<Rightarrow>
                if returncode = 0 then ret ()
                else res_then (log b out)
                       (raise (UserException (''Unable to freeze '' @ py_filename @ ''.'') out))
            | NotStarted e \<Rightarrow> raise (OSError e)])"

subsection \<open>The list of resources\<close>

text \<open>
  The builder reads the attribute \<open>site_packages_package\<close> of the project.  Class
  \<open>Project\<close> defines no attribute of that name (its packages are the list \<open>packages\<close>), so
  the read raises \<open>AttributeError\<close> for every project.
\<close>

definition site_packages_package :: "Project \<Rightarrow> exn + QrcPackage" where
  "site_packages_package p =
     Inl (AttributeError (sq @ ''Project'' @ sq @ '' object has no attribute ''
                          @ sq @ ''site_packages_package'' @ sq))"

text \<open>\<open>resources\<close>: each \<open>for\<close> loop appends at the first included entry and stops.\<close>

definition Builder_resources :: "Builder \<Rightarrow> exn + string list" where
  "Builder_resources b =
     (let resources = (if list_ex included (contents (application_package (project b)))
                       then [''''] else []);
          resources = resources @ [''stdlib'']
      in if length (pyqt_modules (project b)) \<noteq> 0
         then Inr (resources @ [''site-packages''])
         else (case site_packages_package (project b) of
                 Inl e \<Rightarrow> Inl e
               | Inr sp \<Rightarrow>
                   Inr (resources
                        @ (if list_ex included (contents sp) then [''site-packages''] else []))))"

subsection \<open>Writing the contents of a resource\<close>

text \<open>
  The body of the loop of \<open>_write_package_contents\<close> for an included entry that is not a
  directory: one \<open><file>\<close> line in the resource file, then the frozen or copied payload.
\<close>

definition write_leaf ::
  "world \<Rightarrow> Builder \<Rightarrow> string \<Rightarrow> string \<Rightarrow> string \<Rightarrow> string list \<Rightarrow> string \<Rightarrow> string
   \<Rightarrow> string \<Rightarrow> string \<Rightarrow> unit res" where
  "write_leaf w b src_file dst_root_dir src_root_dir dir_stack freeze f dir_tail dst_dir =
     (let prefix = (if basename dst_root_dir \<noteq> ''resources'' then [basename dst_root_dir] else []);
          src_path = os_path_join src_root_dir [dir_tail, src_file];
          (dst_file, freeze_file) =
             (if endswith src_file ''.py''
              then (take (length src_file - 3) src_file @ ''.pyf'', True)
              else if endswith src_file ''.pyw''
              then (take (length src_file - 4) src_file @ ''.pyf'', True)
              else (src_file, False));
          dst_path = os_path_join dst_dir [dst_file];
          file_path = prefix @ (if dir_tail \<noteq> '''' then dir_stack else []) @ [dst_file]
      in res_seq
           [writes f [''        <file>'' @ str_join ''/'' file_path @ ''</file>'' @ nl],
            if freeze_file then Builder_freeze w b dst_path src_path freeze False True
            else copyfile w src_path dst_path])"

text \<open>
  \<open>_write_package_contents\<close> and its \<open>for\<close> loop.  The loop receives the values the
  prologue computed: the directory stack (emptied when the joined stack is empty or
  \<open>.\<close>), the joined stack and the destination directory.  The \<open>append\<close> and \<open>pop\<close>
  around the recursive call amount to passing the stack extended by the directory's name.
  \<open>os.path.join(*dir_stack)\<close> needs at least one argument.
\<close>

fun Builder_write_package_contents ::
  "world \<Rightarrow> Builder \<Rightarrow> content list \<Rightarrow> string \<Rightarrow> string \<Rightarrow> string list \<Rightarrow> string \<Rightarrow> string
   \<Rightarrow> unit res"
and write_contents_loop ::
  "world \<Rightarrow> Builder \<Rightarrow> content list \<Rightarrow> string \<Rightarrow> string \<Rightarrow> string list \<Rightarrow> string \<Rightarrow> string
   \<Rightarrow> string \<Rightarrow> string \<Rightarrow> unit res"
where
  "Builder_write_package_contents w b cs dst_root_dir src_root_dir dir_stack freeze f =
     (case dir_stack of
        [] \<Rightarrow> raise (TypeError ''join() missing 1 required positional argument'')
      | a # p \<Rightarrow>
          (let dir_tail = os_path_join a p
           in if dir_tail = ''''
              then write_contents_loop w b cs dst_root_dir src_root_dir [] freeze f
                     dir_tail dst_root_dir
              else (let dir_stack = (if dir_tail = ''.'' then [] else dir_stack);
                        dst_dir = os_path_join dst_root_dir [dir_tail]
                    in res_then (Builder_create_directory w dst_dir)
                         (write_contents_loop w b cs dst_root_dir src_root_dir dir_stack
                            freeze f dir_tail dst_dir))))"
| "write_contents_loop w b [] dst_root_dir src_root_dir dir_stack freeze f dir_tail dst_dir =
     ret ()"
| "write_contents_loop w b (QrcDirectory n inc sub # cs) dst_root_dir src_root_dir dir_stack
     freeze f dir_tail dst_dir =
     res_then
       (if \<not> inc then ret ()
        else Builder_write_package_contents w b sub dst_root_dir src_root_dir
               (dir_stack @ [n]) freeze f)
       (write_contents_loop w b cs dst_root_dir src_root_dir dir_stack freeze f
          dir_tail dst_dir)"
| "write_contents_loop w b (QrcFile n inc # cs) dst_root_dir src_root_dir dir_stack
     freeze f dir_tail dst_dir =
     res_then
       (if \<not> inc then ret ()
        else write_leaf w b n dst_root_dir src_root_dir dir_stack freeze f dir_tail dst_dir)
       (write_contents_loop w b cs dst_root_dir src_root_dir dir_stack freeze f
          dir_tail dst_dir)"

text \<open>\<open>_write_resource\<close>.\<close>

definition Builder_write_resource ::
  "world \<Rightarrow> Builder \<Rightarrow> string \<Rightarrow> string \<Rightarrow> QrcPackage \<Rightarrow> string \<Rightarrow> string \<Rightarrow> unit res" where
  "Builder_write_resource w b resources_dir resource package src freeze =
     (let qrc_file = (if resource = '''' then ''pyqtdeploy.qrc'' else resource @ ''.qrc'');
          dst_root_dir = (if resource = '''' then resources_dir
                          else os_path_join resources_dir [resource])
      in res_then
           (if resource = '''' then ret () else Builder_create_directory w dst_root_dir)
           (res_bind (Builder_create_file w resources_dir qrc_file)
              (\<lambda>f. res_seq
                 [writes f [''<!DOCTYPE RCC>'' @ nl @ ''<RCC version=\"1.0\">'' @ nl
                            @ ''    <qresource>'' @ nl],
                  (case os_path_split src of
                     (src_root_dir, src_root) \<Rightarrow>
                       Builder_write_package_contents w b (contents package) dst_root_dir
                         src_root_dir [src_root] freeze f),
                  writes f [''    </qresource>'' @ nl @ ''</RCC>'' @ nl],
                  emit (Close f)])))"

subsection \<open>Paths relative to the project (project.py)\<close>

text \<open>\<open>Project.absolute_path\<close>.\<close>

definition absolute_path :: "world \<Rightarrow> Project \<Rightarrow> string \<Rightarrow> string" where
  "absolute_path w p filename =
     (let filename = expandvars w (strip filename)
      in if \<not> isabs filename then os_path_join (dirname (name p)) [filename] else filename)"

subsection \<open>Copies of packages (project.py)\<close>

text \<open>\<open>QrcFile.copy\<close>, \<open>QrcDirectory.copy\<close> and \<open>QrcPackage.copy\<close>, on values.\<close>

fun content_copy :: "content \<Rightarrow> content" where
  "content_copy (QrcFile n inc) = QrcFile n inc"
| "content_copy (QrcDirectory n inc cs) = QrcDirectory n inc (map content_copy cs)"

definition QrcPackage_copy :: "QrcPackage \<Rightarrow> QrcPackage" where
  "QrcPackage_copy p =
     \<lparr>pkg_name = pkg_name p, contents = map content_copy (contents p),
      exclusions = exclusions p\<rparr>"

subsection \<open>The C entry point\<close>

text \<open>\<open>_write_inittab\<close>, as the strings it writes.\<close>

definition write_inittab :: "string list \<Rightarrow> string \<Rightarrow> bool \<Rightarrow> string list" where
  "write_inittab extension_names inittab py3 =
     (let init_type = (if py3 then ''PyObject *'' else ''void '');
          init_prefix = (if py3 then ''PyInit_'' else ''init'')
      in map (\<lambda>ext. ''    extern '' @ init_type @ init_prefix @ split_dot_last ext
                      @ ''(void);'' @ nl) extension_names
         @ [nl @ ''    static struct _inittab '' @ inittab @ ''[] = {'' @ nl]
         @ map (\<lambda>ext. ''        {\"'' @ ext @ ''\", '' @ init_prefix @ split_dot_last ext
                        @ ''},'' @ nl) extension_names
         @ [''        {NULL, NULL}'' @ nl @ ''    };'' @ nl])"

text \<open>\<open>_write_main_call\<close>, as the string it writes.\<close>

definition write_main_call :: "string \<Rightarrow> string \<Rightarrow> bool \<Rightarrow> string" where
  "write_main_call app_name inittab py3 =
     (let name_type = (if py3 then ''wchar_t'' else ''char'');
          name_prefix = (if py3 then ''L'' else '''')
      in ''    extern int pyqtdeploy_main(int argc, char **argv, '' @ name_type
         @ '' *py_main,'' @ nl @ ''            struct _inittab *extension_modules);'' @ nl
         @ nl @ ''    return pyqtdeploy_main(argc, argv, '' @ name_prefix @ ''\"'' @ app_name
         @ ''\", '' @ inittab @ '');'' @ nl)"

text \<open>\<open>_write_main_c\<close>.\<close>

definition Builder_write_main_c :: "world \<Rightarrow> string \<Rightarrow> string \<Rightarrow> string list \<Rightarrow> unit res" where
  "Builder_write_main_c w bdir app_name extension_names =
     res_bind (Builder_create_file w bdir ''main.c'')
       (\<lambda>f. (let inittab = (if length extension_names > 0 then ''extension_modules''
                            else ''NULL'')
             in res_seq
                  [writes f [''#include <wchar.h>'' @ nl @ ''#include <Python.h>'' @ nl @ nl
                             @ ''int main(int argc, char **argv)'' @ nl @ ''{'' @ nl],
                   writes f
                     (if length extension_names > 0
                      then [''#if PY_MAJOR_VERSION >= 3'' @ nl]
                           @ write_inittab extension_names inittab True
                           @ [''#else'' @ nl]
                           @ write_inittab extension_names inittab False
                           @ [''#endif'' @ nl @ nl]
                      else []),
                   writes f
                     [''#if PY_MAJOR_VERSION >= 3'' @ nl,
                      write_main_call app_name inittab True,
                      ''#else'' @ nl,
                      write_main_call app_name inittab False,
                      ''#endif'' @ nl @ ''}'' @ nl],
                   emit (Close f)]))"

subsection \<open>The build descriptor\<close>

text \<open>
  The loops of \<open>_write_qmake\<close> over the requested PyQt modules.  \<open>scan_qt\<close> is the loop over
  one module's \<open>qt\<close> tokens, on the pair of \<open>needs_gui\<close> and \<open>qmake_qt\<close>; \<open>scan_config\<close> is
  the loop over its \<open>config\<close> tokens; \<open>scan_modules\<close> is the outer loop, on \<open>no_gui\<close>,
  \<open>qmake_qt\<close> and \<open>qmake_config\<close>.
\<close>

fun scan_qt :: "string list \<Rightarrow> bool \<times> string list \<Rightarrow> bool \<times> string list" where
  "scan_qt [] s = s"
| "scan_qt (q # qs) (needs_gui, qmake_qt) =
     scan_qt qs
       (if q = ''-gui'' then (False, qmake_qt)
        else if q \<notin> set qmake_qt then (needs_gui, qmake_qt @ [q])
        else (needs_gui, qmake_qt))"

fun scan_config :: "string list \<Rightarrow> string list \<Rightarrow> string list" where
  "scan_config [] qmake_config = qmake_config"
| "scan_config (c # cs) qmake_config =
     scan_config cs (if c \<notin> set qmake_config then qmake_config @ [c] else qmake_config)"

fun scan_modules ::
  "(string \<times> QtMetaData) list \<Rightarrow> string list \<Rightarrow> bool \<times> string list \<times> string list
   \<Rightarrow> bool \<times> string list \<times> string list" where
  "scan_modules module_map [] s = s"
| "scan_modules module_map (pyqt_m # ms) (no_gui, qmake_qt, qmake_config) =
     (let metadata = get_metadata module_map pyqt_m;
          (needs_gui, qmake_qt) =
             (case qt metadata of None \<Rightarrow> (True, qmake_qt)
              | Some qs \<Rightarrow> scan_qt qs (True, qmake_qt));
          qmake_config =
             (case config metadata of None \<Rightarrow> qmake_config
              | Some cs \<Rightarrow> scan_config cs qmake_config)
      in scan_modules module_map ms
           (if needs_gui then False else no_gui, qmake_qt, qmake_config))"

text \<open>The part of the descriptor under the comment \<open>Configure the QT value\<close>.\<close>

definition qmake_qt_lines :: "Project \<Rightarrow> string list" where
  "qmake_qt_lines p =
     (let module_map = (if application_is_pyqt5 p then pyqt5_module_map
                        else pyqt4_module_map)
      in case scan_modules module_map (pyqt_modules p) (True, [], []) of
           (no_gui, qmake_qt, qmake_config) \<Rightarrow>
             (if no_gui then [''QT -= gui'' @ nl] else [])
             @ (if length qmake_qt \<noteq> 0 then [''QT += '' @ str_join '' '' qmake_qt @ nl]
                else [])
             @ (if length qmake_config \<noteq> 0
                then [''CONFIG += '' @ str_join '' '' qmake_config @ nl] else []))"

text \<open>
  The dictionary \<open>extensions\<close>, as an association list in insertion order: assigning to a
  key that is present replaces its value in place.
\<close>

definition qmake_extensions :: "world \<Rightarrow> Project \<Rightarrow> (string \<times> string) list" where
  "qmake_extensions w p =
     (let extensions =
            foldl (\<lambda>d em. if em_name em \<noteq> '''' then AList.update (em_name em) (em_path em) d
                           else d)
              [] (extension_modules p)
      in if length (pyqt_modules p) > 0
         then (let sitepackages = absolute_path w p (python_target_stdlib_dir p)
                                  @ ''/site-packages'';
                   pyqt_version = (if application_is_pyqt5 p then ''PyQt5'' else ''PyQt4'');
                   extensions =
                     foldl (\<lambda>d pyqt. if pyqt \<noteq> ''uic''
                                      then AList.update (pyqt_version @ ''.'' @ pyqt)
                                             (sitepackages @ ''/'' @ pyqt_version) d
                                      else d)
                       extensions (pyqt_modules p)
               in AList.update ''sip'' sitepackages extensions)
         else extensions)"

text \<open>The list of unique module directories, in order of first occurrence.\<close>

definition unique_dirs :: "string list \<Rightarrow> string list" where
  "unique_dirs ds = foldl (\<lambda>mod_dirs d. if d \<notin> set mod_dirs then mod_dirs @ [d] else mod_dirs) [] ds"

definition mod_dir_flags :: "(string \<times> string) list \<Rightarrow> string list" where
  "mod_dir_flags extensions = map (\<lambda>md. ''-L'' @ md) (unique_dirs (map snd extensions))"

definition mod_flags :: "(string \<times> string) list \<Rightarrow> string list" where
  "mod_flags extensions = map (\<lambda>m. ''-l'' @ split_dot_last m) (map fst extensions)"

definition qmake_libs_lines :: "(string \<times> string) list \<Rightarrow> string list" where
  "qmake_libs_lines extensions =
     (if length extensions > 0
      then [nl, ''LIBS += '' @ str_join '' '' (mod_dir_flags extensions) @ '' ''
                @ str_join '' '' (mod_flags extensions) @ nl]
      else [])"

text \<open>The part under the comment \<open>Configure the target Python interpreter\<close>.\<close>

definition qmake_python_lines :: "Project \<Rightarrow> string list" where
  "qmake_python_lines p =
     (if python_target_include_dir p \<noteq> ''''
      then [''INCLUDEPATH += '' @ python_target_include_dir p @ nl] else [])
     @ (if python_target_library p \<noteq> ''''
        then (let lib_dir = dirname (python_target_library p);
                  lib = splitext_root (basename (python_target_library p));
                  lib = (if startswith lib ''lib'' then drop 3 lib else lib)
              in [''LIBS += -L'' @ lib_dir @ '' -l'' @ lib @ nl])
        else [])"

text \<open>The part under the comment \<open>Specify any resource files\<close>.\<close>

definition qmake_resources_lines :: "string list \<Rightarrow> string list" where
  "qmake_resources_lines resources =
     (if length resources \<noteq> 0
      then [nl, ''RESOURCES ='']
           @ map (\<lambda>resource. '' '' @ [CHR 0x5C] @ nl @ ''    resources/''
                     @ (if resource = '''' then ''pyqtdeploy'' else resource) @ ''.qrc'')
               resources
           @ [nl]
      else [])"

text \<open>The text of \<open>__bootstrap__.py\<close>.\<close>

definition bootstrap_text :: "string list \<Rightarrow> string" where
  "bootstrap_text resources =
     ''import sys'' @ nl @ ''import pyqtdeploy'' @ nl @ nl
     @ ''sys.path = ['' @ str_join '', '' (map (\<lambda>resource. sq @ '':/'' @ resource @ sq) resources)
     @ '']'' @ nl @ ''sys.path_hooks = [pyqtdeploy.qrcimporter]'' @ nl"

text \<open>A result of \<open>resources\<close> inside a computation with effects.\<close>

definition lift :: "exn + 'a \<Rightarrow> 'a res" where
  "lift r = ([], r)"

text \<open>
  \<open>_write_qmake\<close> from \<open>Specify any resource files\<close> on, once \<open>self.resources()\<close> has
  returned: \<open>f\<close> is the open descriptor.
\<close>

definition write_qmake_sources ::
  "world \<Rightarrow> Builder \<Rightarrow> string \<Rightarrow> string \<Rightarrow> string \<Rightarrow> string \<Rightarrow> (string \<times> string) list
   \<Rightarrow> string list \<Rightarrow> unit res" where
  "write_qmake_sources w b bdir freeze f app_name extensions resources =
     res_seq
       [writes f (qmake_resources_lines resources),
        writes f [nl, ''SOURCES = main.c pyqtdeploy_main.c pyqtdeploy_module.cpp'' @ nl],
        Builder_write_main_c w bdir app_name (map fst extensions),
        res_bind (Builder_copy_lib_file w ''pyqtdeploy_main.c'' (Some bdir)) (\<lambda>_. ret ()),
        res_bind (Builder_copy_lib_file w ''pyqtdeploy_module.cpp'' (Some bdir)) (\<lambda>_. ret ()),
        writes f [''HEADERS = frozen_bootstrap.h frozen_main.h pyqtdeploy_version.h'' @ nl],
        res_bind (Builder_create_file w bdir ''__bootstrap__.py'')
          (\<lambda>bootstrap_f. res_seq
             [writes bootstrap_f [bootstrap_text resources], emit (Close bootstrap_f)]),
        Builder_freeze w b (os_path_join bdir [''frozen_bootstrap.h''])
          (os_path_join bdir [''__bootstrap__.py'']) freeze False False,
        Builder_freeze w b (os_path_join bdir [''frozen_main.h''])
          (absolute_path w (project b) (application_script (project b))) freeze True False,
        res_bind (Builder_create_file w bdir ''pyqtdeploy_version.h'')
          (\<lambda>version_f. res_seq
             [writes version_f [''#define PYQTDEPLOY_HEXVERSION '' @ version_hex w @ nl],
              emit (Close version_f)]),
        emit (Close f)]"

text \<open>\<open>_write_qmake\<close>.\<close>

definition Builder_write_qmake :: "world \<Rightarrow> Builder \<Rightarrow> string \<Rightarrow> string \<Rightarrow> unit res" where
  "Builder_write_qmake w b bdir freeze =
     (let p = project b;
          app_name = splitext_root (basename (application_script p));
          extensions = qmake_extensions w p
      in res_bind (Builder_create_file w bdir (app_name @ ''.pro''))
           (\<lambda>f. res_seq
              [writes f [''TEMPLATE = app'' @ nl, ''CONFIG += release warn_on'' @ nl],
               writes f (nl # qmake_qt_lines p),
               writes f (qmake_libs_lines extensions),
               writes f (nl # qmake_python_lines p),
               (case platforms_pro w of
                  Inl error_string \<Rightarrow>
                    raise (UserException
                             (''Unable to open file '' @ lib_filename w ''platforms.pro'' @ ''.'')
                             error_string)
                | Inr platforms \<Rightarrow> writes f [nl, platforms]),
               res_bind (lift (Builder_resources b))
                 (write_qmake_sources w b bdir freeze f app_name extensions)]))"

subsection \<open>The build\<close>

text \<open>
  \<open>_add_uic_dir\<close>, as the directory entry it appends to its package argument.  The second
  argument is what \<open>os.listdir\<close> and the two tests show of the directory joined from
  \<open>pyqt_dir\<close>, the directory stack and \<open>dirname\<close>.
\<close>

fun Builder_add_uic_dir :: "string \<Rightarrow> fsnode list \<Rightarrow> exn + content"
and add_uic_entries :: "fsnode list \<Rightarrow> exn + content list"
where
  "Builder_add_uic_dir dir_name entries =
     (case add_uic_entries entries of
        Inl e \<Rightarrow> Inl e
      | Inr cs \<Rightarrow> Inr (QrcDirectory dir_name True cs))"
| "add_uic_entries [] = Inr []"
| "add_uic_entries (FsFile n # es) =
     (if n = ''port_v2'' \<or> n = ''__pycache__'' then add_uic_entries es
      else (case add_uic_entries es of
              Inl e \<Rightarrow> Inl e
            | Inr cs \<Rightarrow> Inr (QrcFile n True # cs)))"
| "add_uic_entries (FsDir n sub # es) =
     (if n = ''port_v2'' \<or> n = ''__pycache__'' then add_uic_entries es
      else (case Builder_add_uic_dir n sub of
              Inl e \<Rightarrow> Inl e
            | Inr d \<Rightarrow>
                (case add_uic_entries es of
                   Inl e \<Rightarrow> Inl e
                 | Inr cs \<Rightarrow> Inr (d # cs))))"
| "add_uic_entries (FsNoList n msg # es) =
     (if n = ''port_v2'' \<or> n = ''__pycache__'' then add_uic_entries es
      else Inl (OSError msg))"
| "add_uic_entries (FsOther n # es) = add_uic_entries es"

text \<open>
  The branch of the loop of \<open>build\<close> for a resource other than the application and the
  standard library, from the copy of the site-packages package on: the PyQt package
  directory is appended to the copy's contents when PyQt modules are requested.
\<close>

definition add_pyqt_package :: "world \<Rightarrow> Project \<Rightarrow> QrcPackage \<Rightarrow> exn + QrcPackage" where
  "add_pyqt_package w p sp =
     (let site_packages_package = QrcPackage_copy sp;
          pyqt_dir = (if application_is_pyqt5 p then ''PyQt5'' else ''PyQt4'')
      in if length (pyqt_modules p) \<noteq> 0
         then (let pyqt_pkg_init = QrcFile ''__init__.py'' True
               in case (if ''uic'' \<in> set (pyqt_modules p)
                        then (case listdir w
                                     (os_path_join
                                        (os_path_join (python_target_stdlib_dir p)
                                           [''site-packages'', pyqt_dir])
                                        [''uic'']) of
                                Inl msg \<Rightarrow> Inl (OSError msg)
                              | Inr entries \<Rightarrow>
                                  (case Builder_add_uic_dir ''uic'' entries of
                                     Inl e \<Rightarrow> Inl e
                                   | Inr d \<Rightarrow> Inr [d]))
                        else Inr []) of
                    Inl e \<Rightarrow> Inl e
                  | Inr uic \<Rightarrow>
                      Inr (site_packages_package
                           \<lparr>contents := contents site_packages_package
                              @ [QrcDirectory pyqt_dir True ([pyqt_pkg_init] @ uic)]\<rparr>))
         else Inr site_packages_package)"

text \<open>The body of the loop of \<open>build\<close> over the resources.\<close>

definition build_resource ::
  "world \<Rightarrow> Builder \<Rightarrow> string \<Rightarrow> string \<Rightarrow> string \<Rightarrow> unit res" where
  "build_resource w b resources_dir freeze resource =
     (let p = project b
      in if resource = ''''
         then Builder_write_resource w b resources_dir resource (application_package p)
                (absolute_path w p (pkg_name (application_package p))) freeze
         else if resource = ''stdlib''
         then Builder_write_resource w b resources_dir resource (stdlib_package p)
                (os_path_join (python_target_stdlib_dir p) ['''']) freeze
         else res_bind (lift (site_packages_package p))
                (\<lambda>sp. res_bind (lift (add_pyqt_package w p sp))
                   (\<lambda>site_packages_package.
                      Builder_write_resource w b resources_dir resource site_packages_package
                        (os_path_join (python_target_stdlib_dir p) [''site-packages'', ''''])
                        freeze)))"

text \<open>\<open>build\<close>.\<close>

definition Builder_build :: "world \<Rightarrow> Builder \<Rightarrow> string \<Rightarrow> unit res" where
  "Builder_build w b bdir =
     res_then (Builder_create_directory w bdir)
       (res_bind (Builder_copy_lib_file w ''freeze.py'' None)
          (\<lambda>freeze. res_seq
             [Builder_write_qmake w b bdir freeze,
              Builder_create_directory w (os_path_join bdir [''resources'']),
              res_bind (lift (Builder_resources b))
                (\<lambda>resources.
                   res_seq (map (build_resource w b (os_path_join bdir [''resources'']) freeze)
                              resources)),
              os_remove w freeze]))"

section \<open>Saving and loading a project (project.py)\<close>

text \<open>
  An element of \<open>xml.etree.ElementTree\<close>: tag, attributes and children.  A project file is
  represented by the element tree it holds: \<open>ElementTree.write\<close> followed by
  \<open>ElementTree.parse\<close> is taken to give back the tree that was written.
\<close>

datatype element = Element (tag: string) (attrib: "(string \<times> string) list")
  (children: "element list")





text \<open>
  \<open>int(s)\<close> for a string: white space around, an optional sign, then decimal digits in
  groups separated by single underscores; \<open>None\<close> stands for \<open>ValueError\<close>.
\<close>

definition isdigit :: "char \<Rightarrow> bool" where
  "isdigit c = (48 \<le> (of_char c :: nat) \<and> (of_char c :: nat) \<le> 57)"

fun int_digits :: "string \<Rightarrow> bool \<Rightarrow> nat \<Rightarrow> nat option" where
  "int_digits [] after_digit acc = (if after_digit then Some acc else None)"
| "int_digits (c # cs) after_digit acc =
     (if isdigit c then int_digits cs True (10 * acc + (of_char c - 48))
      else if c = CHR ''_'' \<and> after_digit \<and> cs \<noteq> [] then int_digits cs False acc
      else None)"

definition py_int :: "string \<Rightarrow> int option" where
  "py_int s =
     (case strip s of
        CHR ''-'' # ds \<Rightarrow> map_option (\<lambda>n. - int n) (int_digits ds False 0)
      | CHR ''+'' # ds \<Rightarrow> map_option int (int_digits ds False 0)
      | ds \<Rightarrow> map_option int (int_digits ds False 0))"

text \<open>\<open>str(n)\<close> for a natural number.\<close>

fun str_nat :: "nat \<Rightarrow> string" where
  "str_nat n =
     (if n < 10 then [char_of (48 + n)] else str_nat (n div 10) @ [char_of (48 + n mod 10)])"

declare str_nat.simps [simp del]

text \<open>\<open>Project._assert\<close>.\<close>

definition project_assert :: "bool \<Rightarrow> string \<Rightarrow> exn + unit" where
  "project_assert ok detail =
     (if \<not> ok then Inl (UserException ''The project file is invalid.'' detail) else Inr ())"

text \<open>Sequencing of results.\<close>

definition sum_bind :: "exn + 'a \<Rightarrow> ('a \<Rightarrow> exn + 'b) \<Rightarrow> exn + 'b" where
  "sum_bind m k = (case m of Inl e \<Rightarrow> Inl e | Inr x \<Rightarrow> k x)"













text \<open>\<open>str(int(flag))\<close> for a Boolean.\<close>

definition str_int_bool :: "bool \<Rightarrow> string" where
  "str_int_bool flag = (if flag then ''1'' else ''0'')"

text \<open>\<open>Project._save_mfs_contents\<close>, as the elements it appends to the container.\<close>

fun Project_save_mfs_contents :: "content list \<Rightarrow> element list" where
  "Project_save_mfs_contents [] = []"
| "Project_save_mfs_contents (QrcFile n inc # cs) =
     Element ''PackageContent''
       [(''name'', n), (''included'', str_int_bool inc), (''isdirectory'', str_int_bool False)]
       []
     # Project_save_mfs_contents cs"
| "Project_save_mfs_contents (QrcDirectory n inc sub # cs) =
     Element ''PackageContent''
       [(''name'', n), (''included'', str_int_bool inc), (''isdirectory'', str_int_bool True)]
       (Project_save_mfs_contents sub)
     # Project_save_mfs_contents cs"

text \<open>\<open>Project._save_package\<close>, as the element it appends to the container.\<close>

definition Project_save_package :: "QrcPackage \<Rightarrow> element" where
  "Project_save_package package =
     Element ''Package'' [(''name'', pkg_name package)]
       (Project_save_mfs_contents (contents package)
        @ map (\<lambda>exclude. Element ''Exclude'' [(''name'', exclude)] []) (exclusions package))"






section \<open>Functions used to state the properties\<close>

text \<open>A list of entries without the entries that are not included, at every depth.\<close>

fun prune :: "content list \<Rightarrow> content list" where
  "prune [] = []"
| "prune (QrcFile n inc # cs) = (if inc then QrcFile n inc # prune cs else prune cs)"
| "prune (QrcDirectory n inc sub # cs) =
     (if inc then QrcDirectory n inc (prune sub) # prune cs else prune cs)"

text \<open>
  The included leaves of a list of entries, in order, each with the names of the
  directories above it; nothing below a directory that is not included.
\<close>

fun included_leaves :: "content list \<Rightarrow> (string list \<times> string) list" where
  "included_leaves [] = []"
| "included_leaves (QrcFile n inc # cs) =
     (if inc then [([], n)] else []) @ included_leaves cs"
| "included_leaves (QrcDirectory n inc sub # cs) =
     (if inc then map (\<lambda>(ds, x). (n # ds, x)) (included_leaves sub) else [])
     @ included_leaves cs"

text \<open>The names of all directories of a list of entries.\<close>

fun directory_names :: "content list \<Rightarrow> string list" where
  "directory_names [] = []"
| "directory_names (QrcFile n inc # cs) = directory_names cs"
| "directory_names (QrcDirectory n inc sub # cs) =
     n # directory_names sub @ directory_names cs"

text \<open>A Python source file, and the name under which a leaf is emitted.\<close>

definition is_python_source :: "string \<Rightarrow> bool" where
  "is_python_source n = (endswith n ''.py'' \<or> endswith n ''.pyw'')"

definition emitted_name :: "string \<Rightarrow> string" where
  "emitted_name n =
     (if endswith n ''.py'' then take (length n - 3) n @ ''.pyf''
      else if endswith n ''.pyw'' then take (length n - 4) n @ ''.pyf''
      else n)"

text \<open>The line of a resource file for a logical path given by its components.\<close>

definition entry_line :: "string list \<Rightarrow> string" where
  "entry_line path = ''        <file>'' @ str_join ''/'' path @ ''</file>'' @ nl"

text \<open>
  The directory of a leaf relative to the source and destination roots: \<open>root\<close> is the
  last component of the package's source directory and \<open>ds\<close> the directories above the
  leaf inside the package.
\<close>

definition root_components :: "string \<Rightarrow> string list" where
  "root_components root = (if root = '''' \<or> root = ''.'' then [] else [root])"

definition relative_dir :: "string \<Rightarrow> string list \<Rightarrow> string" where
  "relative_dir root ds =
     (if ds = [] then root
      else os_path_join (hd (root_components root @ ds)) (tl (root_components root @ ds)))"

text \<open>What a run wrote into files, and the payload operations it performed.\<close>

fun manifest_lines :: "event list \<Rightarrow> string list" where
  "manifest_lines [] = []"
| "manifest_lines (Write f t # evs) = t # manifest_lines evs"
| "manifest_lines (ev # evs) = manifest_lines evs"

fun is_payload :: "event \<Rightarrow> bool" where
  "is_payload (Run args) = True"
| "is_payload (CopyFile s d) = True"
| "is_payload ev = False"

definition payloads :: "event list \<Rightarrow> event list" where
  "payloads evs = filter is_payload evs"

text \<open>The payload operation expected for a leaf \<open>n\<close> in the relative directory \<open>t\<close>.\<close>

definition leaf_payload ::
  "Builder \<Rightarrow> string \<Rightarrow> string \<Rightarrow> string \<Rightarrow> string \<Rightarrow> string \<Rightarrow> event" where
  "leaf_payload b freeze dst_root_dir src_root_dir t n =
     (let dst_dir = (if t = '''' then dst_root_dir else os_path_join dst_root_dir [t])
      in if is_python_source n
         then Run [python_host_interpreter (project b), freeze, ''--as-data'',
                   os_path_join dst_dir [emitted_name n], os_path_join src_root_dir [t, n]]
         else CopyFile (os_path_join src_root_dir [t, n]) (os_path_join dst_dir [n]))"

section \<open>Concrete inputs\<close>

text \<open>
  An environment in which every call succeeds: directories and files can be created,
  every child process exits with status 0 and prints nothing, \<open>platforms.pro\<close> holds one
  line, and no directory has entries.
\<close>

definition quiet_world :: world where
  "quiet_world =
     \<lparr>makedirs_error = (\<lambda>_. None), open_error = (\<lambda>_. None),
      check_output = (\<lambda>_. Exited 0 ''''), copyfile_error = (\<lambda>_ _. None),
      remove_error = (\<lambda>_. None), qfile_copy = (\<lambda>_ _. True),
      platforms_pro = Inr (''linux-* { LIBS += -lutil -ldl }'' @ nl),
      listdir = (\<lambda>_. Inr []), lib_filename = (\<lambda>f. '':/lib/'' @ f),
      gettempdir = ''/tmp'', expandvars = (\<lambda>s. s), version_hex = ''0x500''\<rparr>"

text \<open>A project that requests two PyQt modules, both of which opt out of the GUI.\<close>

definition console_builder :: Builder where
  "console_builder =
     \<lparr>project = (Project_init ''/home/u/app.pdy'')
                  \<lparr>application_script := ''app.py'',
                   pyqt_modules := [''QtCore'', ''QtNetwork'']\<rparr>,
      verbose = False\<rparr>"

text \<open>
  A project whose application package holds a Python source and a data file, and which
  requests one PyQt module.
\<close>

definition app_builder :: Builder where
  "app_builder =
     \<lparr>project = (Project_init ''/home/u/app.pdy'')
                  \<lparr>application_script := ''app.py'',
                   python_host_interpreter := ''python3'',
                   application_package :=
                     QrcPackage_init
                       \<lparr>contents := [QrcFile ''app.py'' True, QrcFile ''data.bin'' True]\<rparr>,
                   pyqt_modules := [''QtCore'']\<rparr>,
      verbose = False\<rparr>"


text \<open>The quiet environment, except that no file can be copied.\<close>

definition unreadable_world :: world where
  "unreadable_world =
     quiet_world\<lparr>copyfile_error := (\<lambda>src dst. Some ''[Errno 13] Permission denied'')\<rparr>"



section \<open>Properties\<close>

subsection \<open>Computations with effects\<close>

lemma res_bind_Inl [simp]: "res_bind (l, Inl e) k = (l, Inl e)"
  by (simp add: res_bind_def)

lemma res_bind_Inr [simp]: "res_bind (l, Inr x) k = (l @ fst (k x), snd (k x))"
  by (simp add: res_bind_def split: prod.splits)

lemma res_then_Inl [simp]: "res_then (l, Inl e) k = (l, Inl e)"
  by (simp add: res_then_def)

lemma res_then_Inr [simp]: "res_then (l, Inr x) k = (l @ fst k, snd k)"
  by (simp add: res_then_def)

lemma res_then_ret [simp]: "res_then (ret ()) k = k"
  by (simp add: ret_def)


lemma fst_res_then_subset: "set (fst (res_then m k)) \<subseteq> set (fst m) \<union> set (fst k)"
  by (cases m; cases "snd m") auto

lemma fst_res_seq_subset: "set (fst (res_seq ms)) \<subseteq> (\<Union>m \<in> set ms. set (fst m))"
proof (induction ms)
  case Nil
  show ?case by (simp add: ret_def)
next
  case (Cons m ms)
  show ?case
    using fst_res_then_subset [of m "res_seq ms"] Cons.IH by auto
qed

subsection \<open>The list of resources\<close>

lemma resources_with_pyqt:
  "pyqt_modules (project b) \<noteq> [] \<Longrightarrow>
   Builder_resources b =
     Inr ((if list_ex included (contents (application_package (project b))) then [''''] else [])
          @ [''stdlib'', ''site-packages''])"
  by (simp add: Builder_resources_def)

lemma resources_no_pyqt:
  "pyqt_modules (project b) = [] \<Longrightarrow>
   Builder_resources b =
     Inl (AttributeError (sq @ ''Project'' @ sq @ '' object has no attribute ''
                          @ sq @ ''site_packages_package'' @ sq))"
  by (simp add: Builder_resources_def site_packages_package_def)

text \<open>
  C1.  \<open>resources()\<close> is to return the list of resources: the application identifier when
  the application package has an included entry, \<open>stdlib\<close> always, and \<open>site-packages\<close>
  when PyQt modules are requested or the site-packages package has an included entry.
  For the project \<open>Project()\<close> creates, which requests no PyQt module, the call does not
  return a list: reading \<open>project.site_packages_package\<close> raises \<open>AttributeError\<close>.
\<close>

theorem resources_of_new_project:
  "Builder_resources \<lparr>project = Project_init '''', verbose = False\<rparr> =
     Inl (AttributeError (sq @ ''Project'' @ sq @ '' object has no attribute ''
                          @ sq @ ''site_packages_package'' @ sq))"
  by (simp add: Builder_resources_def site_packages_package_def Project_init_def)

subsection \<open>The GUI line\<close>




lemma writes_simp [simp]: "fst (writes f ss) = map (Write f) ss" "snd (writes f ss) = Inr ()"
  by (simp_all add: writes_def)

lemmas res_defs = writes_def emit_def ret_def raise_def lift_def









lemma no_write_res_seq:
  "(\<And>m. m \<in> set ms \<Longrightarrow> ev \<notin> set (fst m)) \<Longrightarrow> ev \<notin> set (fst (res_seq ms))"
  using fst_res_seq_subset [of ms] by blast











subsection \<open>Freezing\<close>



subsection \<open>Excluded entries\<close>

lemma write_contents_prune:
  "Builder_write_package_contents w b cs dst src ds fr f
     = Builder_write_package_contents w b (prune cs) dst src ds fr f"
  "write_contents_loop w b cs dst src ds fr f dt dd
     = write_contents_loop w b (prune cs) dst src ds fr f dt dd"
proof (induction w b cs dst src ds fr f and w b cs dst src ds fr f dt dd
       rule: Builder_write_package_contents_write_contents_loop.induct)
  case (1 w b cs dst_root_dir src_root_dir dir_stack freeze f)
  show ?case
  proof (cases dir_stack)
    case Nil
    then show ?thesis by simp
  next
    case (Cons a p)
    show ?thesis
    proof (cases "os_path_join a p = []")
      case True
      then show ?thesis using "1.IH"(1) [OF Cons refl True] Cons by (simp add: Let_def)
    next
      case False
      then show ?thesis using "1.IH"(2) [OF Cons refl False refl refl] Cons
        by (cases "os_path_join a p = ''.''") (simp_all add: Let_def)
    qed
  qed
next
  case (2 w b dst_root_dir src_root_dir dir_stack freeze f dir_tail dst_dir)
  show ?case by simp
next
  case (3 w b n inc sub cs dst_root_dir src_root_dir dir_stack freeze f dir_tail dst_dir)
  then show ?case by simp
next
  case (4 w b n inc cs dst_root_dir src_root_dir dir_stack freeze f dir_tail dst_dir)
  then show ?case by simp
qed

lemma res_then_assoc: "res_then (res_then a c) d = res_then a (res_then c d)"
  by (cases a; cases "snd a"; cases c; cases "snd c"; cases d) auto

lemma write_contents_loop_append:
  "write_contents_loop w b (xs @ ys) dst src ds fr f dt dd
     = res_then (write_contents_loop w b xs dst src ds fr f dt dd)
         (write_contents_loop w b ys dst src ds fr f dt dd)"
proof (induction xs)
  case Nil
  show ?case by simp
next
  case (Cons x xs)
  then show ?case by (cases x) (simp_all add: res_then_assoc)
qed

lemma prune_append: "prune (xs @ ys) = prune xs @ prune ys"
proof (induction xs)
  case Nil
  show ?case by simp
next
  case (Cons x xs)
  then show ?case by (cases x) simp_all
qed

lemma prune_excluded: "\<not> included c \<Longrightarrow> prune (xs @ c # ys) = prune (xs @ ys)"
  by (cases c) (simp_all add: prune_append)

text \<open>
  C2.  An entry whose \<open>included\<close> flag is false contributes no event at all, whatever
  its descendants' flags are, and the traversal of a list that contains it is the
  traversal of the list without it; the same holds at every depth (\<open>prune\<close>).
\<close>

theorem excluded_entries_are_skipped:
  assumes "\<not> included c"
  shows "write_contents_loop w b [c] dst src ds fr f dt dd = ret ()
       \<and> write_contents_loop w b (xs @ c # ys) dst src ds fr f dt dd
           = write_contents_loop w b (xs @ ys) dst src ds fr f dt dd
       \<and> Builder_write_package_contents w b (xs @ c # ys) dst src ds fr f
           = Builder_write_package_contents w b (xs @ ys) dst src ds fr f
       \<and> Builder_write_package_contents w b cs dst src ds fr f
           = Builder_write_package_contents w b (prune cs) dst src ds fr f"
proof -
  have one: "write_contents_loop w b [c] dst src ds fr f dt dd = ret ()"
    using assms by (cases c) simp_all
  have "write_contents_loop w b (xs @ c # ys) dst src ds fr f dt dd
          = write_contents_loop w b (prune (xs @ c # ys)) dst src ds fr f dt dd"
    by (rule write_contents_prune(2))
  also have "\<dots> = write_contents_loop w b (prune (xs @ ys)) dst src ds fr f dt dd"
    using assms by (simp add: prune_excluded)
  also have "\<dots> = write_contents_loop w b (xs @ ys) dst src ds fr f dt dd"
    by (rule write_contents_prune(2) [symmetric])
  finally have two: "write_contents_loop w b (xs @ c # ys) dst src ds fr f dt dd
          = write_contents_loop w b (xs @ ys) dst src ds fr f dt dd" .
  have "Builder_write_package_contents w b (xs @ c # ys) dst src ds fr f
          = Builder_write_package_contents w b (prune (xs @ c # ys)) dst src ds fr f"
    by (rule write_contents_prune(1))
  also have "\<dots> = Builder_write_package_contents w b (prune (xs @ ys)) dst src ds fr f"
    using assms by (simp add: prune_excluded)
  also have "\<dots> = Builder_write_package_contents w b (xs @ ys) dst src ds fr f"
    by (rule write_contents_prune(1) [symmetric])
  finally have three: "Builder_write_package_contents w b (xs @ c # ys) dst src ds fr f
          = Builder_write_package_contents w b (xs @ ys) dst src ds fr f" .
  show ?thesis
    using one two three write_contents_prune(1) by blast
qed

theorem excluded_entries_are_skipped_witness:
  "write_contents_loop quiet_world console_builder
     [QrcDirectory ''tests'' False [QrcFile ''test_app.py'' True]]
     ''build/resources'' ''/home/u'' [] ''/tmp/freeze.py'' ''build/resources/pyqtdeploy.qrc''
     '''' ''build/resources'' = ret ()
   \<and> Builder_write_package_contents quiet_world console_builder
       ([QrcFile ''app.py'' True] @ QrcDirectory ''tests'' False [QrcFile ''test_app.py'' True]
        # [QrcFile ''data.bin'' True])
       ''build/resources'' ''/home/u'' [''''] ''/tmp/freeze.py''
       ''build/resources/pyqtdeploy.qrc''
     = Builder_write_package_contents quiet_world console_builder
         ([QrcFile ''app.py'' True] @ [QrcFile ''data.bin'' True])
         ''build/resources'' ''/home/u'' [''''] ''/tmp/freeze.py''
         ''build/resources/pyqtdeploy.qrc''"
proof -
  have "\<not> included (QrcDirectory ''tests'' False [QrcFile ''test_app.py'' True])"
    by simp
  from excluded_entries_are_skipped [OF this] show ?thesis by blast
qed


subsection \<open>The entries of a resource\<close>

lemma manifest_lines_append [simp]:
  "manifest_lines (xs @ ys) = manifest_lines xs @ manifest_lines ys"
  by (induction xs rule: manifest_lines.induct) simp_all

lemma payloads_append [simp]: "payloads (xs @ ys) = payloads xs @ payloads ys"
  by (simp add: payloads_def)

lemma res_then_ok:
  "res_then m k = (l, Inr ()) \<Longrightarrow>
   \<exists>l1 l2. m = (l1, Inr ()) \<and> k = (l2, Inr ()) \<and> l = l1 @ l2"
  by (cases m; cases "snd m"; cases k) auto

lemma join2_plain: "n \<noteq> [] \<Longrightarrow> n \<noteq> ''.'' \<Longrightarrow> join2 x n \<noteq> [] \<and> join2 x n \<noteq> ''.''"
  by (auto simp: join2_def append_eq_Cons_conv)

lemma jl_snoc:
  "n \<noteq> [] \<Longrightarrow> n \<noteq> ''.'' \<Longrightarrow>
   os_path_join (hd (S @ [n])) (tl (S @ [n])) \<noteq> []
   \<and> os_path_join (hd (S @ [n])) (tl (S @ [n])) \<noteq> ''.''"
  by (cases S) (simp_all add: os_path_join_def join2_plain)

lemma write_leaf_ok:
  assumes "write_leaf w b n dst srd S fr f T dd = (l, Inr ())"
    and "T = [] \<longrightarrow> S = []"
    and "dd = (if T = [] then dst else os_path_join dst [T])"
  shows "manifest_lines l =
           [entry_line ((if basename dst \<noteq> ''resources'' then [basename dst] else [])
                        @ S @ [emitted_name n])]
         \<and> payloads l = [leaf_payload b fr dst srd T n]"
  using assms
  by (auto simp: write_leaf_def Let_def emitted_name_def entry_line_def leaf_payload_def
        is_python_source_def Builder_freeze_def copyfile_def log_def res_defs payloads_def
        split: if_splits proc_result.splits option.splits)

lemma write_contents_ok:
  "\<lbrakk>Builder_write_package_contents w b cs dst srd ds fr f = (l, Inr ());
    \<forall>n \<in> set (directory_names cs). n \<noteq> [] \<and> n \<noteq> ''.'';
    ds \<noteq> []; os_path_join (hd ds) (tl ds) \<noteq> []; os_path_join (hd ds) (tl ds) \<noteq> ''.''\<rbrakk>
   \<Longrightarrow> manifest_lines l =
         map (\<lambda>(d, n). entry_line ((if basename dst \<noteq> ''resources'' then [basename dst] else [])
                                    @ ds @ d @ [emitted_name n]))
           (included_leaves cs)
       \<and> payloads l =
           map (\<lambda>(d, n). leaf_payload b fr dst srd
                            (os_path_join (hd (ds @ d)) (tl (ds @ d))) n)
             (included_leaves cs)"
  "\<lbrakk>write_contents_loop w b cs dst srd S fr f T dd = (l, Inr ());
    \<forall>n \<in> set (directory_names cs). n \<noteq> [] \<and> n \<noteq> ''.'';
    T = [] \<longrightarrow> S = []; dd = (if T = [] then dst else os_path_join dst [T])\<rbrakk>
   \<Longrightarrow> manifest_lines l =
         map (\<lambda>(d, n). entry_line ((if basename dst \<noteq> ''resources'' then [basename dst] else [])
                                    @ S @ d @ [emitted_name n]))
           (included_leaves cs)
       \<and> payloads l =
           map (\<lambda>(d, n). leaf_payload b fr dst srd
                            (if d = [] then T else os_path_join (hd (S @ d)) (tl (S @ d))) n)
             (included_leaves cs)"
proof (induction w b cs dst srd ds fr f and w b cs dst srd S fr f T dd arbitrary: l and l
       rule: Builder_write_package_contents_write_contents_loop.induct)
  case (1 w b cs dst srd ds fr f)
  from "1.prems"(3) obtain a p where ds: "ds = a # p" by (cases ds) auto
  let ?T = "os_path_join a p"
  have T: "?T \<noteq> []" "?T \<noteq> ''.''" using "1.prems"(4,5) ds by simp_all
  from "1.prems"(1) ds T
  have "res_then (Builder_create_directory w (os_path_join dst [?T]))
          (write_contents_loop w b cs dst srd ds fr f ?T (os_path_join dst [?T])) = (l, Inr ())"
    by (simp add: Let_def)
  then obtain l1 l2 where
    l1: "Builder_create_directory w (os_path_join dst [?T]) = (l1, Inr ())" and
    l2: "write_contents_loop w b cs dst srd ds fr f ?T (os_path_join dst [?T]) = (l2, Inr ())" and
    l: "l = l1 @ l2"
    using res_then_ok by blast
  have l1': "manifest_lines l1 = [] \<and> payloads l1 = []"
    using l1 by (auto simp: Builder_create_directory_def payloads_def)
  have "manifest_lines l2 =
         map (\<lambda>(d, n). entry_line ((if basename dst \<noteq> ''resources'' then [basename dst] else [])
                                    @ (if ?T = ''.'' then [] else ds) @ d @ [emitted_name n]))
           (included_leaves cs)
       \<and> payloads l2 =
           map (\<lambda>(d, n). leaf_payload b fr dst srd
                  (if d = [] then ?T
                   else os_path_join (hd ((if ?T = ''.'' then [] else ds) @ d))
                          (tl ((if ?T = ''.'' then [] else ds) @ d))) n)
             (included_leaves cs)"
    using "1.IH"(2) [OF ds refl T(1) refl refl, of l2] l2 T "1.prems"(2) by simp
  then show ?case
    using l l1' T ds
    by (auto simp: split_def intro!: arg_cong [where f = "\<lambda>t. leaf_payload b fr dst srd t _"])
next
  case (2 w b dst srd S fr f T dd)
  then show ?case by (simp add: ret_def payloads_def)
next
  case (3 w b n inc sub cs dst srd S fr f T dd)
  from "3.prems"(1)
  have "res_then (if \<not> inc then ret ()
          else Builder_write_package_contents w b sub dst srd (S @ [n]) fr f)
         (write_contents_loop w b cs dst srd S fr f T dd) = (l, Inr ())"
    by simp
  from res_then_ok [OF this] obtain l1 l2 where
    l1: "(if \<not> inc then ret ()
          else Builder_write_package_contents w b sub dst srd (S @ [n]) fr f) = (l1, Inr ())" and
    l2: "write_contents_loop w b cs dst srd S fr f T dd = (l2, Inr ())" and
    l: "l = l1 @ l2"
    by blast
  have n: "n \<noteq> []" "n \<noteq> ''.''" using "3.prems"(2) by simp_all
  have rest: "manifest_lines l2 =
         map (\<lambda>(d, n). entry_line ((if basename dst \<noteq> ''resources'' then [basename dst] else [])
                                    @ S @ d @ [emitted_name n]))
           (included_leaves cs)
       \<and> payloads l2 =
           map (\<lambda>(d, n). leaf_payload b fr dst srd
                            (if d = [] then T else os_path_join (hd (S @ d)) (tl (S @ d))) n)
             (included_leaves cs)"
    using "3.IH"(2) [OF l2] "3.prems"(2,3,4) by simp
  show ?case
  proof (cases inc)
    case False
    then have "l1 = []" using l1 by (simp add: ret_def)
    then show ?thesis using rest l False by (simp add: payloads_def)
  next
    case True
    then have w1: "Builder_write_package_contents w b sub dst srd (S @ [n]) fr f = (l1, Inr ())"
      using l1 by simp
    have "manifest_lines l1 =
         map (\<lambda>(d, x). entry_line ((if basename dst \<noteq> ''resources'' then [basename dst] else [])
                                    @ (S @ [n]) @ d @ [emitted_name x]))
           (included_leaves sub)
       \<and> payloads l1 =
           map (\<lambda>(d, x). leaf_payload b fr dst srd
                            (os_path_join (hd ((S @ [n]) @ d)) (tl ((S @ [n]) @ d))) x)
             (included_leaves sub)"
      using "3.IH"(1) [OF _ w1] True "3.prems"(2) jl_snoc [OF n, of S] by simp
    then show ?thesis using rest l True by (simp add: split_def comp_def)
  qed
next
  case (4 w b n inc cs dst srd S fr f T dd)
  from "4.prems"(1)
  have "res_then (if \<not> inc then ret () else write_leaf w b n dst srd S fr f T dd)
         (write_contents_loop w b cs dst srd S fr f T dd) = (l, Inr ())"
    by simp
  from res_then_ok [OF this] obtain l1 l2 where
    l1: "(if \<not> inc then ret ()
          else write_leaf w b n dst srd S fr f T dd) = (l1, Inr ())" and
    l2: "write_contents_loop w b cs dst srd S fr f T dd = (l2, Inr ())" and
    l: "l = l1 @ l2"
    by blast
  have rest: "manifest_lines l2 =
         map (\<lambda>(d, n). entry_line ((if basename dst \<noteq> ''resources'' then [basename dst] else [])
                                    @ S @ d @ [emitted_name n]))
           (included_leaves cs)
       \<and> payloads l2 =
           map (\<lambda>(d, n). leaf_payload b fr dst srd
                            (if d = [] then T else os_path_join (hd (S @ d)) (tl (S @ d))) n)
             (included_leaves cs)"
    using "4.IH" [OF l2] "4.prems"(2,3,4) by simp
  show ?case
  proof (cases inc)
    case False
    then have "l1 = []" using l1 by (simp add: ret_def)
    then show ?thesis using rest l False by (simp add: payloads_def)
  next
    case True
    then have "write_leaf w b n dst srd S fr f T dd = (l1, Inr ())" using l1 by simp
    from write_leaf_ok [OF this "4.prems"(3,4)] show ?thesis
      using rest l True by simp
  qed
qed

lemma relative_dir_empty:
  "relative_dir [] d = (if d = [] then [] else os_path_join (hd ([] @ d)) (tl ([] @ d)))"
  by (cases d) (simp_all add: relative_dir_def root_components_def)

lemma relative_dir_dot:
  "relative_dir ''.'' d = (if d = [] then ''.'' else os_path_join (hd ([] @ d)) (tl ([] @ d)))"
  by (cases d) (simp_all add: relative_dir_def root_components_def)

lemma root_components_simps:
  "root_components [] = []" "root_components ''.'' = []"
  by (simp_all add: root_components_def)

lemma write_root_ok:
  assumes run: "Builder_write_package_contents w b cs dst srd [r] fr f = (l, Inr ())"
    and names: "\<forall>n \<in> set (directory_names cs). n \<noteq> [] \<and> n \<noteq> ''.''"
  shows "manifest_lines l =
           map (\<lambda>(d, n). entry_line ((if basename dst \<noteq> ''resources'' then [basename dst] else [])
                                      @ root_components r @ d @ [emitted_name n]))
             (included_leaves cs)
         \<and> payloads l =
             map (\<lambda>(d, n). leaf_payload b fr dst srd (relative_dir r d) n) (included_leaves cs)"
proof -
  consider (empty) "r = []" | (dot) "r = ''.''" | (plain) "r \<noteq> []" "r \<noteq> ''.''"
    by blast
  then show ?thesis
  proof cases
    case empty
    with run have "write_contents_loop w b cs dst srd [] fr f [] dst = (l, Inr ())"
      by (simp add: os_path_join_def)
    from write_contents_ok(2) [OF this names] show ?thesis
      using empty by (simp add: root_components_simps relative_dir_empty)
  next
    case dot
    with run have "res_then (Builder_create_directory w (os_path_join dst [''.'']))
        (write_contents_loop w b cs dst srd [] fr f ''.'' (os_path_join dst [''.''])) = (l, Inr ())"
      by (simp add: os_path_join_def Let_def)
    from res_then_ok [OF this] obtain l1 l2 where
      l1: "Builder_create_directory w (os_path_join dst [''.'']) = (l1, Inr ())" and
      l2: "write_contents_loop w b cs dst srd [] fr f ''.'' (os_path_join dst [''.''])
             = (l2, Inr ())" and
      l: "l = l1 @ l2"
      by blast
    have "manifest_lines l1 = [] \<and> payloads l1 = []"
      using l1 by (auto simp: Builder_create_directory_def payloads_def)
    moreover from write_contents_ok(2) [OF l2 names]
    have "manifest_lines l2 =
           map (\<lambda>(d, n). entry_line ((if basename dst \<noteq> ''resources'' then [basename dst] else [])
                                      @ [] @ d @ [emitted_name n]))
             (included_leaves cs)
         \<and> payloads l2 =
             map (\<lambda>(d, n). leaf_payload b fr dst srd
                    (if d = [] then ''.'' else os_path_join (hd ([] @ d)) (tl ([] @ d))) n)
               (included_leaves cs)"
      by simp
    ultimately show ?thesis
      using l dot by (simp add: root_components_simps relative_dir_dot)
  next
    case plain
    have "manifest_lines l =
           map (\<lambda>(d, n). entry_line ((if basename dst \<noteq> ''resources'' then [basename dst] else [])
                                      @ [r] @ d @ [emitted_name n]))
             (included_leaves cs)
         \<and> payloads l =
             map (\<lambda>(d, n). leaf_payload b fr dst srd
                    (os_path_join (hd ([r] @ d)) (tl ([r] @ d))) n)
               (included_leaves cs)"
      using write_contents_ok(1) [OF run names] plain by (simp add: os_path_join_def)
    moreover have "relative_dir r d = os_path_join (hd ([r] @ d)) (tl ([r] @ d))" for d
      using plain by (simp add: relative_dir_def root_components_def os_path_join_def)
    ultimately show ?thesis
      using plain by (simp add: root_components_def)
  qed
qed

lemma basename_append_plain:
  "CHR ''/'' \<notin> set n \<Longrightarrow> basename (x @ ''/'' @ n) = n"
proof -
  have "takeWhile (\<lambda>c. c \<noteq> CHR ''/'') (rev n @ CHR ''/'' # rev x) = rev n" if "CHR ''/'' \<notin> set n"
    using that by (subst takeWhile_append2) auto
  then show "CHR ''/'' \<notin> set n \<Longrightarrow> basename (x @ ''/'' @ n) = n"
    by (simp add: basename_def)
qed

lemma basename_plain:
  assumes "CHR ''/'' \<notin> set n"
  shows "basename n = n"
proof -
  have "\<forall>c \<in> set (rev n). c \<noteq> CHR ''/''"
    using assms by auto
  then have "takeWhile (\<lambda>c. c \<noteq> CHR ''/'') (rev n) = rev n"
    by (rule takeWhile_eq_all_conv [THEN iffD2])
  then show ?thesis
    unfolding basename_def by (simp only: rev_rev_ident)
qed

lemma endswith_slash: "endswith x ''/'' \<Longrightarrow> \<exists>y. x = y @ ''/''"
  by (auto simp: endswith_def intro: exI [of _ "take (length x - 1) x"])
     (metis append_take_drop_id)

lemma basename_join2:
  assumes "CHR ''/'' \<notin> set n" and "n \<noteq> []"
  shows "basename (join2 x n) = n"
proof -
  have ns: "\<not> startswith n ''/''"
    using assms by (cases n) (auto simp: startswith_def)
  show ?thesis
  proof (cases "x = [] \<or> endswith x ''/''")
    case False
    then show ?thesis
      using ns basename_append_plain [OF assms(1), of x] by (simp add: join2_def)
  next
    case True
    then show ?thesis
    proof
      assume "x = []"
      then show ?thesis using ns assms by (simp add: join2_def basename_plain)
    next
      assume e: "endswith x ''/''"
      then obtain y where "x = y @ ''/''" using endswith_slash by blast
      then show ?thesis
        using ns e basename_append_plain [OF assms(1), of y] by (simp add: join2_def)
    qed
  qed
qed

lemma resource_dst_basename:
  assumes "resource \<in> {'''', ''stdlib'', ''site-packages''}"
  shows "(if basename (if resource = '''' then os_path_join bdir [''resources'']
                       else os_path_join (os_path_join bdir [''resources'']) [resource])
             \<noteq> ''resources''
          then [basename (if resource = '''' then os_path_join bdir [''resources'']
                          else os_path_join (os_path_join bdir [''resources'']) [resource])]
          else [])
         = (if resource = '''' then [] else [resource])"
proof -
  have r: "basename (join2 bdir ''resources'') = ''resources''"
    by (rule basename_join2) simp_all
  have s: "basename (join2 x ''stdlib'') = ''stdlib''" for x
    by (rule basename_join2) simp_all
  have p: "basename (join2 x ''site-packages'') = ''site-packages''" for x
    by (rule basename_join2) simp_all
  from assms consider "resource = ''''" | "resource = ''stdlib''" | "resource = ''site-packages''"
    by blast
  then show ?thesis
    by cases (simp_all add: os_path_join_def r s p)
qed

text \<open>
  C3.  When \<open>_write_resource\<close> returns for one of the resources of a build, the resource
  file holds, between its header and footer, exactly one \<open><file>\<close> line per included leaf,
  in order; the logical path starts with the resource identifier unless that is empty,
  then follows the directories above the leaf; a leaf ending in \<open>.py\<close> or \<open>.pyw\<close> is frozen
  as data to the name with extension \<open>.pyf\<close> in the mirrored directory, every other leaf
  is copied under its own name.  Directory names are assumed to be neither empty nor
  \<open>.\<close>.
\<close>

theorem write_resource_entries:
  assumes run: "Builder_write_resource w b (os_path_join bdir [''resources'']) resource package
                  src freeze = (l, Inr ())"
    and resource: "resource \<in> {'''', ''stdlib'', ''site-packages''}"
    and names: "\<forall>n \<in> set (directory_names (contents package)). n \<noteq> '''' \<and> n \<noteq> ''.''"
  shows "manifest_lines l =
           [''<!DOCTYPE RCC>'' @ nl @ ''<RCC version=\"1.0\">'' @ nl @ ''    <qresource>'' @ nl]
           @ map (\<lambda>(d, n). entry_line ((if resource = '''' then [] else [resource])
                                        @ root_components (snd (os_path_split src))
                                        @ d @ [emitted_name n]))
               (included_leaves (contents package))
           @ [''    </qresource>'' @ nl @ ''</RCC>'' @ nl]
         \<and> payloads l =
             map (\<lambda>(d, n). leaf_payload b freeze
                              (if resource = '''' then os_path_join bdir [''resources'']
                               else os_path_join (os_path_join bdir [''resources'']) [resource])
                              (fst (os_path_split src))
                              (relative_dir (snd (os_path_split src)) d) n)
               (included_leaves (contents package))"
proof -
  let ?rd = "os_path_join bdir [''resources'']"
  let ?dst = "if resource = '''' then ?rd else os_path_join ?rd [resource]"
  let ?qrc = "if resource = '''' then ''pyqtdeploy.qrc'' else resource @ ''.qrc''"
  let ?mk = "if resource = '''' then ret () else Builder_create_directory w ?dst"
  let ?hd = "''<!DOCTYPE RCC>'' @ nl @ ''<RCC version=\"1.0\">'' @ nl @ ''    <qresource>'' @ nl"
  let ?ft = "''    </qresource>'' @ nl @ ''</RCC>'' @ nl"
  obtain srd r where sp: "os_path_split src = (srd, r)" by (cases "os_path_split src")
  let ?body = "\<lambda>f. res_seq
                 [writes f [?hd],
                  Builder_write_package_contents w b (contents package) ?dst srd [r] freeze f,
                  writes f [?ft],
                  emit (Close f)]"
  from run have "res_then ?mk (res_bind (Builder_create_file w ?rd ?qrc) ?body) = (l, Inr ())"
    by (simp add: Builder_write_resource_def Let_def sp del: res_seq.simps)
  from res_then_ok [OF this] obtain l1 l2 where
    l1: "?mk = (l1, Inr ())" and
    l2: "res_bind (Builder_create_file w ?rd ?qrc) ?body = (l2, Inr ())" and
    l: "l = l1 @ l2"
    by blast
  have l1': "manifest_lines l1 = [] \<and> payloads l1 = []"
    using l1 by (auto simp: Builder_create_directory_def ret_def payloads_def split: if_splits)
  let ?f = "os_path_join ?rd [?qrc]"
  have "\<exists>l3. ?body ?f = (l3, Inr ()) \<and> l2 = Open ?f # l3"
    using l2
    by (cases "open_error w ?f"; cases "?body ?f")
       (simp_all add: Builder_create_file_def Let_def del: res_seq.simps)
  then obtain l3 where l3: "?body ?f = (l3, Inr ())" and l2': "l2 = Open ?f # l3"
    by blast
  have seq_ok: "\<exists>l1 l2. m = (l1, Inr ()) \<and> res_seq ms = (l2, Inr ()) \<and> k = l1 @ l2"
    if "res_seq (m # ms) = (k, Inr ())" for m ms k
    using res_then_ok [of m "res_seq ms" k] that by simp
  from seq_ok [OF l3] obtain la l4 where
    la: "writes ?f [?hd] = (la, Inr ())" and
    l4: "res_seq [Builder_write_package_contents w b (contents package) ?dst srd [r] freeze ?f,
                  writes ?f [?ft], emit (Close ?f)] = (l4, Inr ())" and
    l3': "l3 = la @ l4"
    by blast
  from seq_ok [OF l4] obtain l5 l6 where
    l5: "Builder_write_package_contents w b (contents package) ?dst srd [r] freeze ?f
           = (l5, Inr ())" and
    l6: "res_seq [writes ?f [?ft], emit (Close ?f)] = (l6, Inr ())" and
    l4': "l4 = l5 @ l6"
    by blast
  have la': "la = [Write ?f ?hd]"
    using la by (simp add: writes_def)
  have l6': "l6 = [Write ?f ?ft, Close ?f]"
    using l6 by (simp add: res_defs)
  have names': "\<forall>n \<in> set (directory_names (contents package)). n \<noteq> [] \<and> n \<noteq> ''.''"
    using names by simp
  note body = write_root_ok [OF l5 names']
  have "manifest_lines l = ?hd # manifest_lines l5 @ [?ft]"
    using l l1' l2' l3' l4' l6' la' by simp
  moreover have "payloads l = payloads l5"
    using l l1' l2' l3' l4' l6' la' by (simp add: payloads_def)
  ultimately show ?thesis
    using body resource_dst_basename [OF resource, of bdir] sp by simp
qed

lemma app_src:
  "absolute_path quiet_world (project app_builder)
     (pkg_name (application_package (project app_builder))) = ''/home/u/''"
  by (simp add: absolute_path_def app_builder_def Project_init_def QrcPackage_init_def
        quiet_world_def strip_def isabs_def startswith_def dirname_def os_path_split_def
        basename_def os_path_join_def join2_def endswith_def Let_def)

lemma app_run:
  "snd (Builder_write_resource quiet_world app_builder (os_path_join ''build'' [''resources''])
          '''' (application_package (project app_builder)) ''/home/u/'' ''/tmp/freeze.py'')
     = Inr ()"
  by (simp add: Builder_write_resource_def Builder_create_file_def Builder_create_directory_def
        write_leaf_def Builder_freeze_def copyfile_def log_def res_defs
        app_builder_def Project_init_def QrcPackage_init_def
        quiet_world_def os_path_split_def
        basename_def os_path_join_def join2_def endswith_def startswith_def Let_def)

theorem write_resource_entries_witness:
  "manifest_lines
     (fst (Builder_write_resource quiet_world app_builder (os_path_join ''build'' [''resources''])
             '''' (application_package (project app_builder)) ''/home/u/'' ''/tmp/freeze.py''))
     = [''<!DOCTYPE RCC>'' @ nl @ ''<RCC version=\"1.0\">'' @ nl @ ''    <qresource>'' @ nl,
        ''        <file>app.pyf</file>'' @ nl,
        ''        <file>data.bin</file>'' @ nl,
        ''    </qresource>'' @ nl @ ''</RCC>'' @ nl]
   \<and> payloads
       (fst (Builder_write_resource quiet_world app_builder
               (os_path_join ''build'' [''resources''])
               '''' (application_package (project app_builder)) ''/home/u/'' ''/tmp/freeze.py''))
     = [Run [''python3'', ''/tmp/freeze.py'', ''--as-data'', ''build/resources/app.pyf'',
             ''/home/u/app.py''],
        CopyFile ''/home/u/data.bin'' ''build/resources/data.bin'']"
proof -
  let ?run = "Builder_write_resource quiet_world app_builder
                (os_path_join ''build'' [''resources''])
                '''' (application_package (project app_builder)) ''/home/u/'' ''/tmp/freeze.py''"
  have run: "?run = (fst ?run, Inr ())"
    using app_run by (cases ?run) simp
  have names: "\<forall>n \<in> set (directory_names (contents (application_package (project app_builder)))).
                 n \<noteq> '''' \<and> n \<noteq> ''.''"
    by (simp add: app_builder_def Project_init_def)
  have sp: "os_path_split ''/home/u/'' = (''/home/u'', '''')"
    by (simp add: os_path_split_def basename_def)
  have leaves: "included_leaves (contents (application_package (project app_builder)))
                  = [([], ''app.py''), ([], ''data.bin'')]"
    by (simp add: app_builder_def Project_init_def)
  from write_resource_entries [OF run _ names] show ?thesis
    by (simp add: sp leaves entry_line_def emitted_name_def root_components_def
          relative_dir_def leaf_payload_def is_python_source_def endswith_def
          os_path_join_def join2_def startswith_def app_builder_def Project_init_def)
qed


subsection \<open>Link flags\<close>














subsection \<open>The build as a whole\<close>

text \<open>
  C9.  \<open>build\<close> is to end normally or with a \<open>UserException\<close>.  When a data file of the
  application package cannot be copied, it ends with the \<open>OSError\<close> of
  \<open>shutil.copyfile\<close>.
\<close>

theorem build_copy_failure:
  "snd (Builder_build unreadable_world app_builder ''build'')
     = Inl (OSError ''[Errno 13] Permission denied'')"
  by code_simp

text \<open>
  C5.  The path list of \<open>__bootstrap__.py\<close> is to name the resources that \<open>build\<close>
  writes.  For a project with PyQt modules the script names \<open>:/stdlib\<close> and
  \<open>:/site-packages\<close>, and \<open>build\<close> writes \<open>stdlib.qrc\<close> and then ends with
  \<open>AttributeError\<close> before it opens \<open>site-packages.qrc\<close>.
\<close>

theorem build_stops_before_site_packages:
  "Write ''build/__bootstrap__.py''
     (''import sys'' @ nl @ ''import pyqtdeploy'' @ nl @ nl
      @ ''sys.path = ['' @ sq @ '':/stdlib'' @ sq @ '', '' @ sq @ '':/site-packages'' @ sq
      @ '']'' @ nl @ ''sys.path_hooks = [pyqtdeploy.qrcimporter]'' @ nl)
     \<in> set (fst (Builder_build quiet_world console_builder ''build''))
   \<and> Open ''build/resources/stdlib.qrc''
       \<in> set (fst (Builder_build quiet_world console_builder ''build''))
   \<and> Open ''build/resources/site-packages.qrc''
       \<notin> set (fst (Builder_build quiet_world console_builder ''build''))
   \<and> snd (Builder_build quiet_world console_builder ''build'')
       = Inl (AttributeError (sq @ ''Project'' @ sq @ '' object has no attribute ''
                              @ sq @ ''site_packages_package'' @ sq))"
  by code_simp



subsection \<open>Saving and loading\<close>

lemma sum_bind_simps [simp]:
  "sum_bind (Inl e) k = Inl e" "sum_bind (Inr x) k = k x"
  by (simp_all add: sum_bind_def)

lemma project_assert_True [simp]: "project_assert True d = Inr ()"
  by (simp add: project_assert_def)

lemma py_int_bits [simp]: "py_int ''0'' = Some 0" "py_int ''1'' = Some 1" "py_int ''3'' = Some 3"
  by (simp_all add: py_int_def strip_def isspace_def isdigit_def)

lemma str_nat_3 [simp]: "str_nat 3 = ''3''"
  by code_simp













lemma tag_saved_package [simp]: "tag (Project_save_package q) = ''Package''"
  by (simp add: Project_save_package_def)






end
